theory Spec2Isabelle
  imports Main "HOL-Library.Sublist"
begin

section \<open>JavaScript values\<close>

text \<open>
  The streaming hook (\<^verbatim>\<open>frontend/src/hooks/useStreamingOperation.ts\<close>) works on whatever
  \<^verbatim>\<open>JSON.parse\<close> returns: the TypeScript interface \<^verbatim>\<open>StreamEvent\<close> is erased at run
  time. Values are therefore modelled as JavaScript values. A number is carried by its
  canonical rendering (what \<^verbatim>\<open>String(n)\<close> gives), an object by its own properties in
  order, with distinct keys.
\<close>

datatype jsval =
    JUndefined
  | JNull
  | JBool bool
  | JNum string
  | JStr string
  | JArr "jsval list"
  | JObj "(string \<times> jsval) list"

text \<open>\<^verbatim>\<open>v.k\<close> throws a TypeError when \<^verbatim>\<open>v\<close> is null or undefined.\<close>

definition nullish :: "jsval \<Rightarrow> bool" where
  "nullish v = (v = JUndefined \<or> v = JNull)"

text \<open>
  \<^verbatim>\<open>v.k\<close> for a value that is not nullish, at the property names the hook reads
  (\<^verbatim>\<open>type\<close>, \<^verbatim>\<open>message\<close>, \<^verbatim>\<open>data\<close>, \<^verbatim>\<open>agent\<close>, \<^verbatim>\<open>detail\<close>): none of them is
  defined on a prototype, so only an object's own property can answer.
\<close>

fun js_prop :: "jsval \<Rightarrow> string \<Rightarrow> jsval" where
  "js_prop (JObj fs) k = (case map_of fs k of None \<Rightarrow> JUndefined | Some v \<Rightarrow> v)"
| "js_prop v k = JUndefined"

text \<open>ToBoolean.\<close>

fun truthy :: "jsval \<Rightarrow> bool" where
  "truthy JUndefined = False"
| "truthy JNull = False"
| "truthy (JBool b) = b"
| "truthy (JNum n) = (n \<noteq> ''0'' \<and> n \<noteq> ''NaN'')"
| "truthy (JStr s) = (s \<noteq> [])"
| "truthy (JArr xs) = True"
| "truthy (JObj fs) = True"

text \<open>
  ToString, as the \<^verbatim>\<open>Error\<close> constructor applies it to its argument. \<open>None\<close> is the
  TypeError of an object whose own \<^verbatim>\<open>toString\<close> property (never callable in parsed
  JSON) hides \<^verbatim>\<open>Object.prototype.toString\<close>. An array is its elements joined by commas,
  null and undefined elements as the empty string.
\<close>

fun js_to_string :: "jsval \<Rightarrow> string option"
  and js_join :: "jsval list \<Rightarrow> string option" where
  "js_to_string JUndefined = Some ''undefined''"
| "js_to_string JNull = Some ''null''"
| "js_to_string (JBool b) = Some (if b then ''true'' else ''false'')"
| "js_to_string (JNum n) = Some n"
| "js_to_string (JStr s) = Some s"
| "js_to_string (JArr xs) = js_join xs"
| "js_to_string (JObj fs) =
     (if ''toString'' \<in> set (map fst fs) then None else Some ''[object Object]'')"
| "js_join [] = Some []"
| "js_join (x # xs) =
     (case (if x = JUndefined \<or> x = JNull then Some [] else js_to_string x) of
        None \<Rightarrow> None
      | Some s \<Rightarrow>
          (if xs = [] then Some s
           else (case js_join xs of None \<Rightarrow> None | Some r \<Rightarrow> Some (s @ '','' @ r))))"

text \<open>A template literal renders an integer status code in decimal.\<close>

fun string_of_nat :: "nat \<Rightarrow> string" where
  "string_of_nat n =
     (if n < 10 then [char_of (48 + n)]
      else string_of_nat (n div 10) @ [char_of (48 + n mod 10)])"

declare string_of_nat.simps [simp del]

section \<open>Thrown values\<close>

text \<open>
  What a \<^verbatim>\<open>catch\<close> can receive: an \<^verbatim>\<open>Error\<close> instance with its \<^verbatim>\<open>name\<close> and
  \<^verbatim>\<open>message\<close>, or a value that is not an \<^verbatim>\<open>Error\<close>. An aborted request rejects with
  an error named \<^verbatim>\<open>AbortError\<close>.
\<close>

datatype thrown = ErrorObj string string | NonError

text \<open>The message of that TypeError, in V8's wording.\<close>

definition type_error_text :: string where
  "type_error_text = ''Cannot convert object to primitive value''"

text \<open>\<^verbatim>\<open>new Error(v)\<close>: evaluating it throws the TypeError when ToString does.\<close>

definition new_Error :: "jsval \<Rightarrow> thrown" where
  "new_Error v =
     (case js_to_string v of
        None \<Rightarrow> ErrorObj ''TypeError'' type_error_text
      | Some s \<Rightarrow> ErrorObj ''Error'' s)"

section \<open>The streaming hook\<close>

text \<open>
  The hook's React state (\<^verbatim>\<open>events\<close>, \<^verbatim>\<open>isLoading\<close>, \<^verbatim>\<open>error\<close>, \<^verbatim>\<open>result\<close>) and its
  \<^verbatim>\<open>abortControllerRef\<close>. An \<^verbatim>\<open>AbortController\<close> is named by its index in \<open>signals\<close>,
  which holds the \<^verbatim>\<open>aborted\<close> flag of every controller created so far.
\<close>

record hook =
  events :: "jsval list"
  isLoading :: bool
  error :: jsval
  result :: jsval
  abortControllerRef :: "nat option"
  signals :: "bool list"

definition initial_hook :: hook where
  "initial_hook =
     \<lparr>events = [], isLoading = False, error = JNull, result = JNull,
      abortControllerRef = None, signals = []\<rparr>"

definition reset :: "hook \<Rightarrow> hook" where
  "reset h = h\<lparr>events := [], error := JNull, result := JNull, isLoading := False\<rparr>"

text \<open>
  What the environment answers to one request. \<open>Rejected\<close> is an exception thrown by
  \<^verbatim>\<open>JSON.stringify(body)\<close> or a rejection of \<^verbatim>\<open>fetch\<close>. A response has its \<^verbatim>\<open>ok\<close>
  flag, its \<^verbatim>\<open>status\<close>, the outcome of \<^verbatim>\<open>response.text()\<close>, and its \<^verbatim>\<open>body\<close>: absent, or
  the byte chunks that \<^verbatim>\<open>reader.read()\<close> delivers, followed by \<^verbatim>\<open>done\<close> (\<open>None\<close>) or by a
  rejected read.
\<close>

record 'b response =
  ok :: bool
  status :: nat
  text_result :: "thrown + string"
  body :: "('b list list \<times> thrown option) option"

datatype 'b fetch_result = Rejected thrown | Responded "'b response"

text \<open>
  \<^verbatim>\<open>TextDecoder.decode(value, {stream: true})\<close>: the decoder consumes the chunk byte by
  byte, each byte yielding some text and a new decoder state; nothing is flushed at the
  end of a chunk. The per-byte step \<open>dstep\<close> is a parameter.
\<close>

fun decode :: "('s \<Rightarrow> 'b \<Rightarrow> string \<times> 's) \<Rightarrow> 's \<Rightarrow> 'b list \<Rightarrow> string \<times> 's" where
  "decode dstep s [] = ([], s)"
| "decode dstep s (b # bs) =
     (case dstep s b of (out, s1) \<Rightarrow>
        (case decode dstep s1 bs of (rest, s2) \<Rightarrow> (out @ rest, s2)))"

text \<open>
  \<^verbatim>\<open>buffer.split('\n')\<close>, scanning left to right with the line collected so far:
  never empty; the last element is the text after the last newline.
\<close>

fun split_from :: "string \<Rightarrow> string \<Rightarrow> string list" where
  "split_from cur [] = [cur]"
| "split_from cur (c # cs) =
     (if c = CHR 0x0A then cur # split_from [] cs else split_from (cur @ [c]) cs)"

definition split_nl :: "string \<Rightarrow> string list" where
  "split_nl s = split_from [] s"

text \<open>
  The body of the inner \<^verbatim>\<open>try\<close> for one parsed event, on the pair of \<^verbatim>\<open>finalResult\<close> and
  the hook state. Reading \<^verbatim>\<open>event.type\<close> of \<^verbatim>\<open>null\<close> throws, and the \<^verbatim>\<open>catch\<close> only logs.
\<close>

definition handle_event :: "jsval \<Rightarrow> jsval \<times> hook \<Rightarrow> jsval \<times> hook" where
  "handle_event event st =
     (case st of (finalResult, h) \<Rightarrow>
        if nullish event then st
        else if js_prop event ''type'' = JStr ''error'' then
          (finalResult, h\<lparr>error := js_prop event ''message''\<rparr>)
        else if js_prop event ''type'' = JStr ''complete'' then
          (let d = js_prop event ''data'';
               agent = (if nullish d then JUndefined else js_prop d ''agent'')
           in if truthy agent
              then (agent, h\<lparr>result := agent, events := events h @ [event]\<rparr>)
              else (finalResult, h\<lparr>events := events h @ [event]\<rparr>))
        else (finalResult, h\<lparr>events := events h @ [event]\<rparr>))"

text \<open>One line of the buffer. \<open>parse\<close> is \<^verbatim>\<open>JSON.parse\<close>, \<open>None\<close> when it throws.\<close>

definition process_line ::
  "(string \<Rightarrow> jsval option) \<Rightarrow> jsval \<times> hook \<Rightarrow> string \<Rightarrow> jsval \<times> hook" where
  "process_line parse st line =
     (if take 6 line = ''data: '' then
        (case parse (drop 6 line) of None \<Rightarrow> st | Some event \<Rightarrow> handle_event event st)
      else st)"

text \<open>
  The \<^verbatim>\<open>while (true)\<close> loop, one iteration per chunk read; its state is the decoder,
  \<^verbatim>\<open>buffer\<close>, \<^verbatim>\<open>finalResult\<close> and the hook state.
\<close>

fun read_loop ::
  "(string \<Rightarrow> jsval option) \<Rightarrow> ('s \<Rightarrow> 'b \<Rightarrow> string \<times> 's) \<Rightarrow>
   's \<times> string \<times> jsval \<times> hook \<Rightarrow> 'b list list \<Rightarrow> 's \<times> string \<times> jsval \<times> hook" where
  "read_loop parse dstep st [] = st"
| "read_loop parse dstep (ds, buffer, st) (chunk # chunks) =
     (case decode dstep ds chunk of (decoded, ds') \<Rightarrow>
        (let lines = split_nl (buffer @ decoded)
         in read_loop parse dstep
              (ds', last lines, foldl (process_line parse) st (butlast lines)) chunks))"

text \<open>The message thrown on a response that is not ok.\<close>

definition error_message :: "(string \<Rightarrow> jsval option) \<Rightarrow> nat \<Rightarrow> string \<Rightarrow> jsval" where
  "error_message parse st errorText =
     (let errorMessage = JStr (''Request failed: '' @ string_of_nat st)
      in case parse errorText of
           None \<Rightarrow> errorMessage
         | Some errorJson \<Rightarrow>
             if nullish errorJson then errorMessage
             else if truthy (js_prop errorJson ''detail'') then js_prop errorJson ''detail''
             else errorMessage)"

text \<open>The \<^verbatim>\<open>try\<close> block: \<open>Inl\<close> is what it throws, \<open>Inr\<close> what it returns.\<close>

definition try_block ::
  "(string \<Rightarrow> jsval option) \<Rightarrow> ('s \<Rightarrow> 'b \<Rightarrow> string \<times> 's) \<Rightarrow> 's \<Rightarrow>
   'b fetch_result \<Rightarrow> hook \<Rightarrow> (thrown + jsval) \<times> hook" where
  "try_block parse dstep ds0 fr h =
     (case fr of
        Rejected e \<Rightarrow> (Inl e, h)
      | Responded r \<Rightarrow>
          if \<not> ok r then
            (case text_result r of
               Inl e \<Rightarrow> (Inl e, h)
             | Inr errorText \<Rightarrow> (Inl (new_Error (error_message parse (status r) errorText)), h))
          else
            (case body r of
               None \<Rightarrow> (Inl (ErrorObj ''Error'' ''No response body''), h)
             | Some (chunks, ending) \<Rightarrow>
                 (case read_loop parse dstep (ds0, [], JNull, h) chunks of
                    (ds, buffer, finalResult, h') \<Rightarrow>
                      (case ending of
                         Some e \<Rightarrow> (Inl e, h')
                       | None \<Rightarrow> (Inr finalResult, h')))))"

text \<open>The synchronous prefix of \<^verbatim>\<open>executeStream\<close>, up to the first \<^verbatim>\<open>await\<close>.\<close>

definition abort :: "nat \<Rightarrow> hook \<Rightarrow> hook" where
  "abort c h = h\<lparr>signals := (signals h)[c := True]\<rparr>"

definition invoke :: "hook \<Rightarrow> hook" where
  "invoke h =
     (let h1 = (case abortControllerRef h of None \<Rightarrow> h | Some c \<Rightarrow> abort c h)
      in h1\<lparr>abortControllerRef := Some (length (signals h1)),
             signals := signals h1 @ [False],
             isLoading := True, events := [], error := JNull, result := JNull\<rparr>)"

text \<open>The \<^verbatim>\<open>catch\<close> and \<^verbatim>\<open>finally\<close> blocks.\<close>

definition catch_block :: "thrown \<Rightarrow> hook \<Rightarrow> hook" where
  "catch_block err h =
     (case err of
        ErrorObj name message \<Rightarrow>
          if name = ''AbortError'' then h else h\<lparr>error := JStr message\<rparr>
      | NonError \<Rightarrow> h\<lparr>error := JStr ''Unknown error''\<rparr>)"

definition finally_block :: "hook \<Rightarrow> hook" where
  "finally_block h = h\<lparr>isLoading := False, abortControllerRef := None\<rparr>"

text \<open>Everything after the synchronous prefix: the request settles with \<open>fr\<close>.\<close>

definition settle ::
  "(string \<Rightarrow> jsval option) \<Rightarrow> ('s \<Rightarrow> 'b \<Rightarrow> string \<times> 's) \<Rightarrow> 's \<Rightarrow>
   'b fetch_result \<Rightarrow> hook \<Rightarrow> hook \<times> jsval" where
  "settle parse dstep ds0 fr h =
     (case try_block parse dstep ds0 fr h of
        (Inr v, h') \<Rightarrow> (finally_block h', v)
      | (Inl err, h') \<Rightarrow> (finally_block (catch_block err h'), JNull))"

text \<open>
  One call of \<^verbatim>\<open>executeStream\<close> that runs alone: the hook state when the promise
  resolves, and the value it resolves to.
\<close>

definition executeStream ::
  "(string \<Rightarrow> jsval option) \<Rightarrow> ('s \<Rightarrow> 'b \<Rightarrow> string \<times> 's) \<Rightarrow> 's \<Rightarrow>
   hook \<Rightarrow> 'b fetch_result \<Rightarrow> hook \<times> jsval" where
  "executeStream parse dstep ds0 h fr = settle parse dstep ds0 fr (invoke h)"


text \<open>
  \<^verbatim>\<open>executeDelete\<close> is a \<^verbatim>\<open>useCallback\<close> closure over \<^verbatim>\<open>error\<close> and \<^verbatim>\<open>isLoading\<close>: the
  two names in its last line are the constants of the render that created the callback
  (\<open>rendered\<close>), not the state after the \<^verbatim>\<open>await\<close>.
\<close>

definition executeDelete ::
  "(string \<Rightarrow> jsval option) \<Rightarrow> ('s \<Rightarrow> 'b \<Rightarrow> string \<times> 's) \<Rightarrow> 's \<Rightarrow>
   hook \<Rightarrow> hook \<Rightarrow> 'b fetch_result \<Rightarrow> hook \<times> bool" where
  "executeDelete parse dstep ds0 rendered h fr =
     (case executeStream parse dstep ds0 h fr of
        (h', _) \<Rightarrow> (h', error rendered = JNull \<and> \<not> isLoading rendered))"

text \<open>
  Calls that overlap. A call yields at its first \<^verbatim>\<open>await\<close>, so another call's synchronous
  prefix can run before it settles. \<open>Invoke\<close> runs the prefix of a new call, which is then
  in flight under its controller; \<open>Settle c fr\<close> lets the call of controller \<open>c\<close> run to its
  end with the answer \<open>fr\<close>.
\<close>

datatype 'b call_event = Invoke | Settle nat "'b fetch_result"

fun step ::
  "(string \<Rightarrow> jsval option) \<Rightarrow> ('s \<Rightarrow> 'b \<Rightarrow> string \<times> 's) \<Rightarrow> 's \<Rightarrow>
   hook \<times> nat list \<Rightarrow> 'b call_event \<Rightarrow> hook \<times> nat list" where
  "step parse dstep ds0 (h, in_flight) Invoke = (invoke h, in_flight @ [length (signals h)])"
| "step parse dstep ds0 (h, in_flight) (Settle c fr) =
     (if c \<in> set in_flight
      then (fst (settle parse dstep ds0 fr h), remove1 c in_flight)
      else (h, in_flight))"

definition run_calls ::
  "(string \<Rightarrow> jsval option) \<Rightarrow> ('s \<Rightarrow> 'b \<Rightarrow> string \<times> 's) \<Rightarrow> 's \<Rightarrow>
   'b call_event list \<Rightarrow> hook \<times> nat list" where
  "run_calls parse dstep ds0 evs = foldl (step parse dstep ds0) (initial_hook, []) evs"

subsection \<open>The events on the channel\<close>

text \<open>
  The events received on the response channel: the payloads of the newline-terminated
  \<^verbatim>\<open>data: \<close> lines of the decoded text that \<^verbatim>\<open>JSON.parse\<close> accepts, in order.
\<close>

definition data_events :: "(string \<Rightarrow> jsval option) \<Rightarrow> string list \<Rightarrow> jsval list" where
  "data_events parse lines =
     List.map_filter
       (\<lambda>line. if take 6 line = ''data: '' then parse (drop 6 line) else None) lines"

definition received :: "(string \<Rightarrow> jsval option) \<Rightarrow> string \<Rightarrow> jsval list" where
  "received parse txt = data_events parse (butlast (split_nl txt))"

definition event_type :: "jsval \<Rightarrow> jsval" where
  "event_type ev = js_prop ev ''type''"

text \<open>\<^verbatim>\<open>event.data?.agent\<close>.\<close>

definition data_agent :: "jsval \<Rightarrow> jsval" where
  "data_agent ev =
     (let d = js_prop ev ''data'' in if nullish d then JUndefined else js_prop d ''agent'')"

subsection \<open>Sample inputs\<close>

text \<open>
  \<^verbatim>\<open>JSON.parse\<close> at the texts used below, and a decoder for ASCII, where every byte is
  one character.
\<close>

definition json_sample :: "string \<Rightarrow> jsval option" where
  \<open>json_sample s =
     (if s = ''{"type":"log","message":"Working"}'' then
        Some (JObj [(''type'', JStr ''log''), (''message'', JStr ''Working'')])
      else if s = ''{"type":"complete","message":"Done","data":{"agent":{"id":"a1"}}}'' then
        Some (JObj [(''type'', JStr ''complete''), (''message'', JStr ''Done''),
                    (''data'', JObj [(''agent'', JObj [(''id'', JStr ''a1'')])])])
      else if s = ''{"type":"error","message":"Backend failure"}'' then
        Some (JObj [(''type'', JStr ''error''), (''message'', JStr ''Backend failure'')])
      else if s = ''{"detail":"Agent not found"}'' then
        Some (JObj [(''detail'', JStr ''Agent not found'')])
      else if s = ''{}'' then Some (JObj [])
      else None)\<close>

definition ascii_step :: "unit \<Rightarrow> char \<Rightarrow> string \<times> unit" where
  "ascii_step s b = ([b], s)"

definition log_event :: jsval where
  "log_event = JObj [(''type'', JStr ''log''), (''message'', JStr ''Working'')]"

definition complete_event :: jsval where
  "complete_event =
     JObj [(''type'', JStr ''complete''), (''message'', JStr ''Done''),
           (''data'', JObj [(''agent'', JObj [(''id'', JStr ''a1'')])])]"

definition error_event :: jsval where
  "error_event = JObj [(''type'', JStr ''error''), (''message'', JStr ''Backend failure'')]"

text \<open>A successful stream, cut in the middle of its first line.\<close>

definition completing_chunks :: "string list" where
  \<open>completing_chunks =
     [''data: {"type":"log","mess'',
      ''age":"Working"}\<newline>\<newline>data: {"type":"complete","message":"Done","data":{"agent":{"id":"a1"}}}\<newline>\<newline>'']\<close>

text \<open>The same bytes in one chunk.\<close>

definition completing_one_chunk :: "string list" where
  \<open>completing_one_chunk =
     [''data: {"type":"log","message":"Working"}\<newline>\<newline>data: {"type":"complete","message":"Done","data":{"agent":{"id":"a1"}}}\<newline>\<newline>'']\<close>

definition failing_chunks :: "string list" where
  \<open>failing_chunks =
     [''data: {"type":"log","message":"Working"}\<newline>\<newline>'',
      ''data: {"type":"error","message":"Backend failure"}\<newline>\<newline>'']\<close>

definition log_only_chunks :: "string list" where
  \<open>log_only_chunks = [''data: {"type":"log","message":"Working"}\<newline>\<newline>'']\<close>

text \<open>A stream whose last \<^verbatim>\<open>data: \<close> line has no newline after it.\<close>

definition unterminated_chunks :: "string list" where
  \<open>unterminated_chunks =
     [''data: {"type":"log","message":"Working"}\<newline>\<newline>'',
      ''data: {"type":"error","message":"Backend failure"}'']\<close>

definition ok_response :: "'b list list \<Rightarrow> 'b response" where
  "ok_response chunks =
     \<lparr>ok = True, status = 200, text_result = Inr [], body = Some (chunks, None)\<rparr>"

definition error_response :: "nat \<Rightarrow> string \<Rightarrow> char response" where
  "error_response st errorText =
     \<lparr>ok = False, status = st, text_result = Inr errorText, body = None\<rparr>"


definition abort_error :: thrown where
  "abort_error = ErrorObj ''AbortError'' ''The user aborted a request.''"

section \<open>Agent status and the pages that act on it\<close>

text \<open>\<^verbatim>\<open>AgentStatus\<close> of \<^verbatim>\<open>frontend/src/types/index.ts\<close>, with the string each value is.\<close>

datatype AgentStatus =
  Creating | Running | Stopping | Stopped | Starting | Deleting | Deleted | Error



text \<open>The fields of \<^verbatim>\<open>Agent\<close> that the card and the detail page read.\<close>

record Agent =
  agent_id :: string
  agent_name :: string
  platform_type :: string
  current_task :: "string option"
  vm_status :: AgentStatus

text \<open>
  A rendered page is the list of its controls, each named by the handler its
  \<^verbatim>\<open>onClick\<close> (or \<^verbatim>\<open>onSubmit\<close>) runs. \<^verbatim>\<open>{cond && (<Button .../>)}\<close> renders the button
  exactly when \<^verbatim>\<open>cond\<close> holds.
\<close>

datatype handler =
  onStart | onStop | onDelete | onArchive | onRefreshStatus | onBack | onSendMessage

text \<open>\<^verbatim>\<open>AgentCard\<close> of the dashboard.\<close>

definition AgentCard :: "Agent \<Rightarrow> handler list" where
  "AgentCard agent =
     (if vm_status agent = Stopped then [onStart] else [])
     @ (if vm_status agent = Running then [onStop] else [])
     @ [onDelete]"

definition Dashboard :: "Agent list \<Rightarrow> (string \<times> handler list) list" where
  "Dashboard agents = map (\<lambda>agent. (agent_id agent, AgentCard agent)) agents"

text \<open>
  \<^verbatim>\<open>AgentDetail\<close>, in both versions of the page: a spinner while the query loads, a
  way back when there is no agent, the header buttons and the chat form otherwise.
\<close>

definition AgentDetail :: "bool \<Rightarrow> Agent option \<Rightarrow> handler list" where
  "AgentDetail loading agent =
     (if loading then []
      else (case agent of
              None \<Rightarrow> [onBack]
            | Some a \<Rightarrow>
                [onBack, onRefreshStatus]
                @ (if vm_status a = Stopped then [onStart] else [])
                @ (if vm_status a = Running then [onStop] else [])
                @ [onArchive, onDelete]
                @ (if vm_status a = Running then [onSendMessage] else [])))"

subsection \<open>The status badge\<close>







section \<open>Credentials and audit log entries\<close>

text \<open>The interfaces of \<^verbatim>\<open>frontend/src/types/index.ts\<close>.\<close>

datatype CredentialType = llm | cloud | utility

record Credential =
  credential_id :: string
  credential_name :: string
  credential_type :: CredentialType
  credential_description :: "string option"
  credential_created_at :: string

record CreateCredentialRequest =
  request_name :: string
  request_type :: CredentialType
  request_description :: "string option"
  request_value :: string

record AuditLog =
  log_id :: string
  action_type :: string
  target_type :: "string option"
  target_id :: "string option"
  details :: "(string \<times> jsval) list option"
  ip_address :: "string option"
  timestamp :: string

section \<open>The API client\<close>

text \<open>
  Every request that \<^verbatim>\<open>services/api.ts\<close> can send, with the streaming URLs as the pages
  use them (\<^verbatim>\<open>executePost\<close>, and \<^verbatim>\<open>executeDelete\<close> for \<^verbatim>\<open>deleteUrl\<close>). Query parameters
  and request bodies are left out of the request.
\<close>

datatype http_method = GET | POST | PUT | DELETE

record api_request =
  http_verb :: http_method
  url :: string

definition API_BASE :: string where
  "API_BASE = ''/api''"

datatype api_call =
    auth_getLoginUrl
  | auth_logout
  | auth_me
  | agents_list nat nat
  | agents_get string
  | agents_getStatus string
  | agents_archive string "string option"
  | agents_chat string string
  | agents_streaming_create
  | agents_streaming_delete string
  | agents_streaming_start string
  | agents_streaming_stop string
  | savedAgents_list bool nat nat
  | savedAgents_getStarred
  | savedAgents_get string
  | savedAgents_update string "string option" "string option"
  | savedAgents_delete string
  | savedAgents_star string
  | savedAgents_unstar string
  | savedAgents_copy string "string option"
  | credentials_list "string option"
  | credentials_get string
  | credentials_create CreateCredentialRequest
  | credentials_delete string
  | logs_list "string option" "string option" nat nat
  | logs_export string

fun request_of :: "api_call \<Rightarrow> api_request" where
  "request_of auth_getLoginUrl = \<lparr>http_verb = GET, url = API_BASE @ ''/auth/login''\<rparr>"
| "request_of auth_logout = \<lparr>http_verb = POST, url = API_BASE @ ''/auth/logout''\<rparr>"
| "request_of auth_me = \<lparr>http_verb = GET, url = API_BASE @ ''/auth/me''\<rparr>"
| "request_of (agents_list skip limit) = \<lparr>http_verb = GET, url = API_BASE @ ''/agents''\<rparr>"
| "request_of (agents_get i) = \<lparr>http_verb = GET, url = API_BASE @ ''/agents/'' @ i\<rparr>"
| "request_of (agents_getStatus i) =
     \<lparr>http_verb = GET, url = API_BASE @ ''/agents/'' @ i @ ''/status''\<rparr>"
| "request_of (agents_archive i n) =
     \<lparr>http_verb = POST, url = API_BASE @ ''/agents/'' @ i @ ''/archive''\<rparr>"
| "request_of (agents_chat i message) =
     \<lparr>http_verb = POST, url = API_BASE @ ''/agents/'' @ i @ ''/chat''\<rparr>"
| "request_of agents_streaming_create =
     \<lparr>http_verb = POST, url = API_BASE @ ''/agents/stream''\<rparr>"
| "request_of (agents_streaming_delete i) =
     \<lparr>http_verb = DELETE, url = API_BASE @ ''/agents/'' @ i @ ''/stream''\<rparr>"
| "request_of (agents_streaming_start i) =
     \<lparr>http_verb = POST, url = API_BASE @ ''/agents/'' @ i @ ''/start/stream''\<rparr>"
| "request_of (agents_streaming_stop i) =
     \<lparr>http_verb = POST, url = API_BASE @ ''/agents/'' @ i @ ''/stop/stream''\<rparr>"
| "request_of (savedAgents_list starredOnly skip limit) =
     \<lparr>http_verb = GET, url = API_BASE @ ''/saved-agents''\<rparr>"
| "request_of savedAgents_getStarred =
     \<lparr>http_verb = GET, url = API_BASE @ ''/saved-agents/starred''\<rparr>"
| "request_of (savedAgents_get i) =
     \<lparr>http_verb = GET, url = API_BASE @ ''/saved-agents/'' @ i\<rparr>"
| "request_of (savedAgents_update i n d) =
     \<lparr>http_verb = PUT, url = API_BASE @ ''/saved-agents/'' @ i\<rparr>"
| "request_of (savedAgents_delete i) =
     \<lparr>http_verb = DELETE, url = API_BASE @ ''/saved-agents/'' @ i\<rparr>"
| "request_of (savedAgents_star i) =
     \<lparr>http_verb = POST, url = API_BASE @ ''/saved-agents/'' @ i @ ''/star''\<rparr>"
| "request_of (savedAgents_unstar i) =
     \<lparr>http_verb = DELETE, url = API_BASE @ ''/saved-agents/'' @ i @ ''/star''\<rparr>"
| "request_of (savedAgents_copy i n) =
     \<lparr>http_verb = POST, url = API_BASE @ ''/saved-agents/'' @ i @ ''/copy''\<rparr>"
| "request_of (credentials_list ty) =
     \<lparr>http_verb = GET, url = API_BASE @ ''/credentials''\<rparr>"
| "request_of (credentials_get i) =
     \<lparr>http_verb = GET, url = API_BASE @ ''/credentials/'' @ i\<rparr>"
| "request_of (credentials_create data) =
     \<lparr>http_verb = POST, url = API_BASE @ ''/credentials''\<rparr>"
| "request_of (credentials_delete i) =
     \<lparr>http_verb = DELETE, url = API_BASE @ ''/credentials/'' @ i\<rparr>"
| "request_of (logs_list actionType targetType skip limit) =
     \<lparr>http_verb = GET, url = API_BASE @ ''/logs''\<rparr>"
| "request_of (logs_export format) =
     \<lparr>http_verb = GET, url = API_BASE @ ''/logs/export''\<rparr>"

text \<open>The requests addressed to the audit log routes.\<close>

definition to_audit_log :: "api_request \<Rightarrow> bool" where
  "to_audit_log req = (take 9 (url req) = ''/api/logs'')"

section \<open>The storage rules on the audit log table\<close>

text \<open>
  The schema of \<^verbatim>\<open>.clarity-protocol/solution/architecture.md\<close> declares two rewrite
  rules on \<^verbatim>\<open>audit_logs\<close>:
  \<^verbatim>\<open>CREATE RULE audit_log_no_update AS ON UPDATE TO audit_logs DO INSTEAD NOTHING\<close> and
  \<^verbatim>\<open>CREATE RULE audit_log_no_delete AS ON DELETE TO audit_logs DO INSTEAD NOTHING\<close>.
  A command that a \<^verbatim>\<open>DO INSTEAD NOTHING\<close> rule matches is replaced by no command at
  all. A database is the rows of each table, in insertion order.
\<close>

datatype sql_event = ON_INSERT | ON_UPDATE | ON_DELETE

record sql_rule =
  rule_name :: string
  on_event :: sql_event
  to_table :: string

definition schema_rules :: "sql_rule list" where
  "schema_rules =
     [\<lparr>rule_name = ''audit_log_no_update'', on_event = ON_UPDATE, to_table = ''audit_logs''\<rparr>,
      \<lparr>rule_name = ''audit_log_no_delete'', on_event = ON_DELETE, to_table = ''audit_logs''\<rparr>]"

datatype 'r sql_command =
    INSERT_INTO string 'r
  | UPDATE string "'r \<Rightarrow> bool" "'r \<Rightarrow> 'r"
  | DELETE_FROM string "'r \<Rightarrow> bool"

fun command_event :: "'r sql_command \<Rightarrow> sql_event" where
  "command_event (INSERT_INTO t r) = ON_INSERT"
| "command_event (UPDATE t p f) = ON_UPDATE"
| "command_event (DELETE_FROM t p) = ON_DELETE"

fun command_table :: "'r sql_command \<Rightarrow> string" where
  "command_table (INSERT_INTO t r) = t"
| "command_table (UPDATE t p f) = t"
| "command_table (DELETE_FROM t p) = t"

definition rewrite :: "sql_rule list \<Rightarrow> 'r sql_command \<Rightarrow> 'r sql_command list" where
  "rewrite rules cmd =
     (if filter (\<lambda>r. on_event r = command_event cmd \<and> to_table r = command_table cmd) rules
         = []
      then [cmd] else [])"

fun apply_command :: "(string \<Rightarrow> 'r list) \<Rightarrow> 'r sql_command \<Rightarrow> (string \<Rightarrow> 'r list)" where
  "apply_command db (INSERT_INTO t r) = db(t := db t @ [r])"
| "apply_command db (UPDATE t p f) = db(t := map (\<lambda>r. if p r then f r else r) (db t))"
| "apply_command db (DELETE_FROM t p) = db(t := filter (\<lambda>r. \<not> p r) (db t))"

definition execute ::
  "sql_rule list \<Rightarrow> (string \<Rightarrow> 'r list) \<Rightarrow> 'r sql_command \<Rightarrow> (string \<Rightarrow> 'r list)" where
  "execute rules db cmd = foldl apply_command db (rewrite rules cmd)"

section \<open>The credential service behind the API\<close>

text \<open>
  The state of the server that answers \<^verbatim>\<open>/credentials\<close>, writes the audit ledger and
  emits the progress events. The \<^verbatim>\<open>credentials\<close> table of the schema holds the metadata
  of \<^verbatim>\<open>Credential\<close>, the owner and \<^verbatim>\<open>secret_ref\<close>.
\<close>

record credential_row =
  row_credential :: Credential
  row_owner :: string
  row_secret_ref :: string

record server =
  secret_backend :: "(string \<times> string) list"
  credentials :: "credential_row list"
  audit_ledger :: "AuditLog list"

text \<open>\<^verbatim>\<open>StreamEvent\<close> of \<^verbatim>\<open>useStreamingOperation.ts\<close>, as the server emits it.\<close>

record StreamEvent =
  ev_type :: string
  ev_timestamp :: string
  ev_message :: string
  ev_depth :: "nat option"
  ev_data :: "(string \<times> jsval) list option"
  ev_duration_ms :: "nat option"

text \<open>
  Modelled from the spec: the secret backend's store operation, which is missing from the
  sources. It "stores a new secret, returning an opaque reference (never the plaintext)";
  the reference is numbered by the entries already stored.
\<close>

definition store_secret ::
  "string \<Rightarrow> string \<Rightarrow> (string \<times> string) list \<Rightarrow> string \<times> (string \<times> string) list" where
  "store_secret owner plaintext backend =
     (let ref = ''secrets/'' @ owner @ ''/'' @ string_of_nat (length backend)
      in (ref, backend @ [(ref, plaintext)]))"

text \<open>
  Modelled from the spec: the handler of \<^verbatim>\<open>POST /credentials\<close>, which is missing from the
  sources. It stores the secret, persists the reference in the credential record ("the
  secret value itself never lives in this record"), appends one audit entry "recording the
  action type, target, and outcome", and answers with the credential's metadata.
\<close>

definition create_credential ::
  "string \<Rightarrow> string \<Rightarrow> string option \<Rightarrow> CreateCredentialRequest \<Rightarrow> server \<Rightarrow>
   Credential \<times> server" where
  "create_credential owner now ip data srv =
     (case store_secret owner (request_value data) (secret_backend srv) of
        (ref, backend') \<Rightarrow>
          (let cred = \<lparr>credential_id = ''cred-'' @ string_of_nat (length (credentials srv)),
                       credential_name = request_name data,
                       credential_type = request_type data,
                       credential_description = request_description data,
                       credential_created_at = now\<rparr>;
               entry = \<lparr>log_id = ''log-'' @ string_of_nat (length (audit_ledger srv)),
                        action_type = ''credential.create'',
                        target_type = Some ''credential'',
                        target_id = Some (credential_id cred),
                        details = Some [(''name'', JStr (request_name data)),
                                        (''outcome'', JStr ''success'')],
                        ip_address = ip,
                        timestamp = now\<rparr>
           in (cred,
               \<lparr>secret_backend = backend',
                credentials = credentials srv
                  @ [\<lparr>row_credential = cred, row_owner = owner, row_secret_ref = ref\<rparr>],
                audit_ledger = audit_ledger srv @ [entry]\<rparr>)))"

text \<open>
  Modelled from the spec: the handlers of \<^verbatim>\<open>GET /credentials\<close> and
  \<^verbatim>\<open>GET /credentials/{id}\<close>, which are missing from the sources; they answer with the
  metadata of the owner's credential records.
\<close>

definition list_credentials :: "string \<Rightarrow> server \<Rightarrow> Credential list" where
  "list_credentials owner srv =
     map row_credential (filter (\<lambda>r. row_owner r = owner) (credentials srv))"

definition get_credential :: "string \<Rightarrow> string \<Rightarrow> server \<Rightarrow> Credential option" where
  "get_credential owner cid srv =
     find (\<lambda>c. credential_id c = cid) (list_credentials owner srv)"

text \<open>
  Modelled from the spec: the step of the create workflow that injects "granted
  credentials' secret material onto the instance", which is missing from the sources. For
  each granted credential it retrieves the plaintext by its reference and writes it to the
  instance; it emits a span around the step and one log event for each credential, and an
  error event in place of the rest when a reference has no secret. The result is the
  files written to the instance and the progress events.
\<close>

fun inject_each ::
  "string \<Rightarrow> (string \<times> string) list \<Rightarrow> credential_row list \<Rightarrow>
   (string \<times> string) list \<times> StreamEvent list" where
  "inject_each now backend [] =
     ([], [\<lparr>ev_type = ''span_end'', ev_timestamp = now, ev_message = ''Injecting credentials'',
           ev_depth = Some 1, ev_data = None, ev_duration_ms = Some 0\<rparr>])"
| "inject_each now backend (r # rs) =
     (case map_of backend (row_secret_ref r) of
        None \<Rightarrow>
          ([], [\<lparr>ev_type = ''error'', ev_timestamp = now,
                ev_message = ''backend_error: secret not found for credential ''
                  @ credential_name (row_credential r),
                ev_depth = None, ev_data = None, ev_duration_ms = None\<rparr>])
      | Some plaintext \<Rightarrow>
          (case inject_each now backend rs of
             (files, evs) \<Rightarrow>
               ((''credentials/'' @ credential_name (row_credential r), plaintext) # files,
                \<lparr>ev_type = ''log'', ev_timestamp = now,
                 ev_message = ''Injected credential '' @ credential_name (row_credential r),
                 ev_depth = Some 2, ev_data = None, ev_duration_ms = None\<rparr> # evs)))"

definition inject_credentials ::
  "string \<Rightarrow> server \<Rightarrow> string list \<Rightarrow> (string \<times> string) list \<times> StreamEvent list" where
  "inject_credentials now srv granted =
     (case inject_each now (secret_backend srv)
             (filter (\<lambda>r. credential_id (row_credential r) \<in> set granted) (credentials srv)) of
        (files, evs) \<Rightarrow>
          (files,
           \<lparr>ev_type = ''span_start'', ev_timestamp = now, ev_message = ''Injecting credentials'',
            ev_depth = Some 1, ev_data = None, ev_duration_ms = None\<rparr> # evs))"

text \<open>Two servers that differ at most in the plaintexts their secret backends hold.\<close>

definition same_but_plaintext :: "server \<Rightarrow> server \<Rightarrow> bool" where
  "same_but_plaintext s s' =
     (map fst (secret_backend s) = map fst (secret_backend s')
      \<and> credentials s = credentials s' \<and> audit_ledger s = audit_ledger s')"

definition sample_request :: "string \<Rightarrow> CreateCredentialRequest" where
  "sample_request v =
     \<lparr>request_name = ''anthropic'', request_type = llm,
      request_description = None, request_value = v\<rparr>"

definition empty_server :: server where
  "empty_server = \<lparr>secret_backend = [], credentials = [], audit_ledger = []\<rparr>"

section \<open>Lines and chunks\<close>

lemma split_from_ne: "split_from cur s \<noteq> []"
  by (induction s arbitrary: cur) auto

lemma split_from_append:
  "split_from cur (a @ b) =
     butlast (split_from cur a) @ split_from (last (split_from cur a)) b"
  by (induction a arbitrary: cur) (auto simp: split_from_ne)

lemma split_from_no_nl: "CHR 0x0A \<notin> set l \<Longrightarrow> split_from cur l = [cur @ l]"
  by (induction l arbitrary: cur) auto

lemma last_split_from_no_nl:
  "CHR 0x0A \<notin> set cur \<Longrightarrow> CHR 0x0A \<notin> set (last (split_from cur s))"
  by (induction s arbitrary: cur) (auto simp: split_from_ne)

lemma split_nl_ne: "split_nl s \<noteq> []"
  by (simp add: split_nl_def split_from_ne)

lemma last_split_nl_no_nl: "CHR 0x0A \<notin> set (last (split_nl s))"
  by (simp add: split_nl_def last_split_from_no_nl)

lemma split_nl_buffer:
  "CHR 0x0A \<notin> set buf \<Longrightarrow> split_nl (buf @ s) = split_from buf s"
  by (simp add: split_nl_def split_from_append split_from_no_nl)

text \<open>Splitting a text is splitting its first part, then the rest after the kept buffer.\<close>

lemma split_nl_append:
  "split_nl (a @ b) = butlast (split_nl a) @ split_nl (last (split_nl a) @ b)"
proof -
  have "CHR 0x0A \<notin> set (last (split_nl a))"
    by (rule last_split_nl_no_nl)
  then show ?thesis
    by (simp add: split_nl_buffer) (simp add: split_nl_def split_from_append)
qed

lemma butlast_split_nl_tail:
  "CHR 0x0A \<notin> set l \<Longrightarrow> butlast (split_nl (t @ l)) = butlast (split_nl t)"
  using split_nl_append[of t l] last_split_nl_no_nl[of t]
  by (simp add: split_nl_buffer split_from_no_nl)

lemma decode_append:
  "decode dstep s (a @ b) =
     (case decode dstep s a of (x, s1) \<Rightarrow>
        (case decode dstep s1 b of (y, s2) \<Rightarrow> (x @ y, s2)))"
  by (induction a arbitrary: s) (auto split: prod.splits)

text \<open>
  The loop over the chunks does what one pass over the whole decoded text does: the
  complete lines are processed in order and the text after the last newline is kept.
\<close>

lemma read_loop_concat:
  "CHR 0x0A \<notin> set buf \<Longrightarrow>
   read_loop parse dstep (ds, buf, st) chunks =
     (case decode dstep ds (concat chunks) of (txt, ds') \<Rightarrow>
        (ds', last (split_nl (buf @ txt)),
         foldl (process_line parse) st (butlast (split_nl (buf @ txt)))))"
proof (induction chunks arbitrary: ds buf st)
  case Nil
  then show ?case by (simp add: split_nl_buffer)
next
  case (Cons chunk chunks)
  obtain d ds1 where d: "decode dstep ds chunk = (d, ds1)"
    by (cases "decode dstep ds chunk")
  obtain t ds2 where t: "decode dstep ds1 (concat chunks) = (t, ds2)"
    by (cases "decode dstep ds1 (concat chunks)")
  let ?lines = "split_nl (buf @ d)"
  have nl: "CHR 0x0A \<notin> set (last ?lines)" by (rule last_split_nl_no_nl)
  have sp: "split_nl (buf @ d @ t) = butlast ?lines @ split_nl (last ?lines @ t)"
    using split_nl_append[of "buf @ d" t] by simp
  show ?case
    using Cons.IH[OF nl, of ds1 "foldl (process_line parse) st (butlast ?lines)"]
    by (simp add: d t decode_append sp split_nl_ne butlast_append Let_def)
qed

lemma foldl_process_line:
  "foldl (process_line parse) st lines =
     foldl (\<lambda>s ev. handle_event ev s) st (data_events parse lines)"
  by (induction lines arbitrary: st)
     (auto simp: data_events_def map_filter_simps process_line_def split: option.splits)

text \<open>A call on an ok response with a body, in terms of the events received.\<close>

lemma executeStream_ok_body:
  assumes "ok r" and "body r = Some (chunks, ending)"
  shows "executeStream parse dstep ds0 h (Responded r) =
           (case foldl (\<lambda>s ev. handle_event ev s) (JNull, invoke h)
                   (received parse (fst (decode dstep ds0 (concat chunks)))) of
              (finalResult, h') \<Rightarrow>
                (case ending of
                   None \<Rightarrow> (finally_block h', finalResult)
                 | Some e \<Rightarrow> (finally_block (catch_block e h'), JNull)))"
  using assms
  by (simp add: executeStream_def settle_def try_block_def read_loop_concat
      foldl_process_line received_def split: prod.splits option.splits)

section \<open>Terminal events\<close>


lemma handle_event_error:
  "event_type t = JStr ''error'' \<Longrightarrow>
   handle_event t (fr, h) = (fr, h\<lparr>error := js_prop t ''message''\<rparr>)"
  by (auto simp: handle_event_def event_type_def nullish_def)




lemma received_failing:
  "received json_sample (fst (decode ascii_step () (concat failing_chunks)))
     = [log_event, error_event]"
  by (simp add: received_def data_events_def map_filter_simps split_nl_def ascii_step_def
      failing_chunks_def json_sample_def log_event_def error_event_def)


lemma sample_events:
  "event_type complete_event = JStr ''complete''"
  "truthy (data_agent complete_event)"
  "data_agent complete_event = JObj [(''id'', JStr ''a1'')]"
  "event_type error_event = JStr ''error''"
  "event_type log_event = JStr ''log''"
  "js_prop error_event ''message'' = JStr ''Backend failure''"
  by (simp_all add: event_type_def data_agent_def complete_event_def error_event_def
      log_event_def nullish_def)

lemma ok_response_simps:
  "ok (ok_response cs)" "body (ok_response cs) = Some (cs, None)"
  by (simp_all add: ok_response_def)










section \<open>The events list\<close>

text \<open>
  What \<^verbatim>\<open>events\<close> holds after the events \<open>evs\<close>: every received value except null and
  the \<^verbatim>\<open>error\<close> events, in arrival order.
\<close>

lemma events_after_foldl:
  "events (snd (foldl (\<lambda>s ev. handle_event ev s) (fr, h) evs)) =
     events h @ filter (\<lambda>ev. \<not> nullish ev \<and> event_type ev \<noteq> JStr ''error'') evs"
proof (induction evs arbitrary: fr h)
  case Nil
  then show ?case by simp
next
  case (Cons ev evs)
  obtain fr' h' where st: "handle_event ev (fr, h) = (fr', h')"
    by (cases "handle_event ev (fr, h)")
  have "events h' =
          events h @ (if \<not> nullish ev \<and> event_type ev \<noteq> JStr ''error'' then [ev] else [])"
    using st by (auto simp: handle_event_def event_type_def Let_def split: if_splits)
  then show ?case using Cons.IH[of fr' h'] st by simp
qed

lemma sample_not_nullish:
  "\<not> nullish log_event" "\<not> nullish error_event" "\<not> nullish complete_event"
  by (simp_all add: nullish_def log_event_def error_event_def complete_event_def)

text \<open>
  C2. Every event received on the channel is appended to \<^verbatim>\<open>events\<close> in arrival order
  and none is omitted. The code at the stream of a progress event followed by an
  \<^verbatim>\<open>error\<close> event: both are received, and \<^verbatim>\<open>events\<close> ends up holding the first only.
\<close>

theorem C2_error_event_not_appended:
  "received json_sample (fst (decode ascii_step () (concat failing_chunks)))
     = [log_event, error_event]
   \<and> events (fst (executeStream json_sample ascii_step () initial_hook
        (Responded (ok_response failing_chunks)))) = [log_event]"
proof -
  let ?evs = "[log_event, error_event]"
  obtain fr h1 where st:
    "foldl (\<lambda>s ev. handle_event ev s) (JNull, invoke initial_hook) ?evs = (fr, h1)"
    by (cases "foldl (\<lambda>s ev. handle_event ev s) (JNull, invoke initial_hook) ?evs")
  have run: "executeStream json_sample ascii_step () initial_hook
               (Responded (ok_response failing_chunks)) = (finally_block h1, fr)"
    unfolding executeStream_ok_body[OF ok_response_simps] received_failing st by simp
  have "events h1 = events (invoke initial_hook)
          @ filter (\<lambda>ev. \<not> nullish ev \<and> event_type ev \<noteq> JStr ''error'') ?evs"
    using events_after_foldl[of JNull "invoke initial_hook" ?evs] unfolding st by simp
  then have "events h1 = [log_event]"
    by (simp add: sample_events sample_not_nullish invoke_def initial_hook_def)
  then show ?thesis
    by (simp add: run received_failing finally_block_def)
qed

section \<open>Chunk boundaries\<close>

text \<open>
  C8. The outcome of a call depends on the concatenation of the chunks only, not on where
  the stream is cut; and text after the last newline is never parsed: appending decoded
  text without a newline to the stream changes nothing.
\<close>

theorem C8_chunk_boundary_invariant:
  assumes "ok r" and "body r = Some (chunks, ending)"
    and "ok r'" and "body r' = Some (chunks', ending)"
  shows "(concat chunks' = concat chunks \<longrightarrow>
            executeStream parse dstep ds0 h (Responded r')
              = executeStream parse dstep ds0 h (Responded r))
       \<and> (\<forall>l. fst (decode dstep ds0 (concat chunks'))
                  = fst (decode dstep ds0 (concat chunks)) @ l \<and> CHR 0x0A \<notin> set l \<longrightarrow>
            executeStream parse dstep ds0 h (Responded r')
              = executeStream parse dstep ds0 h (Responded r))"
proof -
  have "received parse (fst (decode dstep ds0 (concat chunks')))
          = received parse (fst (decode dstep ds0 (concat chunks)))"
    if "fst (decode dstep ds0 (concat chunks')) = fst (decode dstep ds0 (concat chunks)) @ l"
      and "CHR 0x0A \<notin> set l" for l
    using that by (simp add: received_def butlast_split_nl_tail)
  then show ?thesis
    by (auto simp: executeStream_ok_body[OF assms(1,2)] executeStream_ok_body[OF assms(3,4)])
qed

lemma ok_response_body: "body (ok_response cs) = Some (cs, None)"
  by (simp add: ok_response_def)

theorem C8_chunk_boundary_invariant_witness:
  "concat completing_chunks = concat completing_one_chunk
   \<and> executeStream json_sample ascii_step () initial_hook
        (Responded (ok_response completing_chunks))
     = executeStream json_sample ascii_step () initial_hook
        (Responded (ok_response completing_one_chunk))
   \<and> executeStream json_sample ascii_step () initial_hook
        (Responded (ok_response unterminated_chunks))
     = executeStream json_sample ascii_step () initial_hook
        (Responded (ok_response log_only_chunks))"
proof -
  have same: "concat completing_chunks = concat completing_one_chunk"
    by (simp add: completing_chunks_def completing_one_chunk_def)
  have tail: \<open>fst (decode ascii_step () (concat unterminated_chunks))
      = fst (decode ascii_step () (concat log_only_chunks))
          @ ''data: {"type":"error","message":"Backend failure"}''\<close>
    by (simp add: unterminated_chunks_def log_only_chunks_def ascii_step_def)
  have no_nl: \<open>CHR 0x0A \<notin> set ''data: {"type":"error","message":"Backend failure"}''\<close>
    by simp
  note a = C8_chunk_boundary_invariant[OF ok_response_simps(1) ok_response_body
      ok_response_simps(1) ok_response_body, THEN conjunct1, rule_format, OF same]
  note b = C8_chunk_boundary_invariant[OF ok_response_simps(1) ok_response_body
      ok_response_simps(1) ok_response_body, THEN conjunct2, rule_format,
      OF conjI[OF tail no_nl]]
  show ?thesis using same a b by simp
qed


section \<open>Responses that are not ok, and the loading flag\<close>

lemma isLoading_settle: "\<not> isLoading (fst (settle parse dstep ds0 fr h))"
  by (simp add: settle_def finally_block_def split: prod.splits sum.splits)

lemma executeStream_not_ok:
  assumes "\<not> ok r" and "text_result r = Inr errorText"
  shows "executeStream parse dstep ds0 h (Responded r) =
           (finally_block
              (catch_block (new_Error (error_message parse (status r) errorText)) (invoke h)),
            JNull)"
  using assms by (simp add: executeStream_def settle_def try_block_def)

lemma error_after_new_Error:
  "error (finally_block (catch_block (new_Error (JStr s)) h)) = JStr s"
  by (simp add: new_Error_def catch_block_def finally_block_def)

text \<open>
  C6, as the claim states it, fails at a response with status 500 whose body is
  \<^verbatim>\<open>{}\<close>: the body parses as JSON, and the error state is not its \<^verbatim>\<open>detail\<close> field but
  the default message.
\<close>

theorem C6_counterexample:
  "json_sample ''{}'' = Some (JObj [])
   \<and> error (fst (executeStream json_sample ascii_step () initial_hook
        (Responded (error_response 500 ''{}'')))) \<noteq> js_prop (JObj []) ''detail''
   \<and> error (fst (executeStream json_sample ascii_step () initial_hook
        (Responded (error_response 500 ''{}'')))) = JStr ''Request failed: 500''"
proof -
  have n: "string_of_nat 500 = ''500''" by code_simp
  have run: "executeStream json_sample ascii_step () initial_hook
               (Responded (error_response 500 ''{}''))
             = (finally_block (catch_block (new_Error (error_message json_sample 500 ''{}''))
                  (invoke initial_hook)), JNull)"
    using executeStream_not_ok[of "error_response 500 ''{}''" "''{}''" json_sample ascii_step
        "()" initial_hook]
    by (simp add: error_response_def)
  have msg: "error_message json_sample 500 ''{}'' = JStr ''Request failed: 500''"
    by (simp add: error_message_def json_sample_def nullish_def n Let_def)
  show ?thesis
    by (simp add: run msg error_after_new_Error json_sample_def)
qed

text \<open>
  C6, amended. Whenever \<^verbatim>\<open>executeStream\<close> returns, \<^verbatim>\<open>isLoading\<close> is false. On a response
  that is not ok and whose text is read, it returns null, and the error state is the
  body's \<^verbatim>\<open>detail\<close> field when the body parses as JSON and \<^verbatim>\<open>detail\<close> is a non-empty
  string, and \<^verbatim>\<open>Request failed: <status>\<close> when the body does not parse as JSON or its
  \<^verbatim>\<open>detail\<close> is absent or falsy.
\<close>

theorem C6_loading_cleared_and_http_error:
  assumes "executeStream parse dstep ds0 h fr = (h', ret)"
  shows "\<not> isLoading h'
       \<and> (\<forall>r errorText. fr = Responded r \<and> \<not> ok r \<and> text_result r = Inr errorText \<longrightarrow>
            ret = JNull
            \<and> (\<forall>j s. parse errorText = Some j \<and> js_prop j ''detail'' = JStr s \<and> s \<noteq> []
                 \<longrightarrow> error h' = JStr s)
            \<and> (parse errorText = None
                 \<or> (\<exists>j. parse errorText = Some j \<and> \<not> truthy (js_prop j ''detail''))
                 \<longrightarrow> error h' = JStr (''Request failed: '' @ string_of_nat (status r))))"
proof -
  have loading: "\<not> isLoading h'"
    using assms isLoading_settle[of parse dstep ds0 fr "invoke h"]
    by (simp add: executeStream_def)
  have http: "ret = JNull
      \<and> (\<forall>j s. parse errorText = Some j \<and> js_prop j ''detail'' = JStr s \<and> s \<noteq> []
            \<longrightarrow> error h' = JStr s)
      \<and> (parse errorText = None
            \<or> (\<exists>j. parse errorText = Some j \<and> \<not> truthy (js_prop j ''detail''))
            \<longrightarrow> error h' = JStr (''Request failed: '' @ string_of_nat (status r)))"
    if "fr = Responded r" "\<not> ok r" "text_result r = Inr errorText" for r errorText
  proof -
    have run: "h' = finally_block
                 (catch_block (new_Error (error_message parse (status r) errorText)) (invoke h))"
      and ret: "ret = JNull"
      using assms that executeStream_not_ok[OF that(2,3), of parse dstep ds0 h] by simp_all
    have detail: "error h' = JStr s"
      if "parse errorText = Some j" "js_prop j ''detail'' = JStr s" "s \<noteq> []" for j s
    proof -
      have "\<not> nullish j" using that by (auto simp: nullish_def)
      then have "error_message parse (status r) errorText = JStr s"
        using that by (simp add: error_message_def Let_def)
      then show ?thesis by (simp add: run error_after_new_Error)
    qed
    have fallback: "error h' = JStr (''Request failed: '' @ string_of_nat (status r))"
      if "parse errorText = None
          \<or> (\<exists>j. parse errorText = Some j \<and> \<not> truthy (js_prop j ''detail''))"
    proof -
      have "error_message parse (status r) errorText
              = JStr (''Request failed: '' @ string_of_nat (status r))"
        using that by (auto simp: error_message_def Let_def)
      then show ?thesis by (simp add: run error_after_new_Error)
    qed
    show ?thesis using ret detail fallback by blast
  qed
  show ?thesis using loading http by blast
qed

theorem C6_loading_cleared_and_http_error_witness:
  \<open>\<not> isLoading (fst (executeStream json_sample ascii_step () initial_hook
        (Responded (error_response 404 ''{"detail":"Agent not found"}''))))
   \<and> error (fst (executeStream json_sample ascii_step () initial_hook
        (Responded (error_response 404 ''{"detail":"Agent not found"}''))))
     = JStr ''Agent not found''
   \<and> snd (executeStream json_sample ascii_step () initial_hook
        (Responded (error_response 404 ''{"detail":"Agent not found"}''))) = JNull
   \<and> error (fst (executeStream json_sample ascii_step () initial_hook
        (Responded (error_response 502 ''<html>Bad Gateway</html>''))))
     = JStr ''Request failed: 502''
   \<and> error (fst (executeStream json_sample ascii_step () initial_hook
        (Responded (error_response 500 ''{}'')))) = JStr ''Request failed: 500''\<close>
proof -
  have resp: "\<not> ok (error_response st t)" "text_result (error_response st t) = Inr t"
    "status (error_response st t) = st" for st t
    by (simp_all add: error_response_def)
  have p1: \<open>json_sample ''{"detail":"Agent not found"}''
              = Some (JObj [(''detail'', JStr ''Agent not found'')])\<close>
    and p2: "json_sample ''<html>Bad Gateway</html>'' = None"
    and p3: "json_sample ''{}'' = Some (JObj [])"
    by (simp_all add: json_sample_def)
  have n: "string_of_nat 502 = ''502''" "string_of_nat 500 = ''500''" by code_simp+
  note a = C6_loading_cleared_and_http_error[OF surjective_pairing, of json_sample ascii_step
      "()" initial_hook \<open>Responded (error_response 404 ''{"detail":"Agent not found"}'')\<close>]
  note b = C6_loading_cleared_and_http_error[OF surjective_pairing, of json_sample ascii_step
      "()" initial_hook "Responded (error_response 502 ''<html>Bad Gateway</html>'')"]
  note c = C6_loading_cleared_and_http_error[OF surjective_pairing, of json_sample ascii_step
      "()" initial_hook "Responded (error_response 500 ''{}'')"]
  have a1: \<open>\<not> isLoading (fst (executeStream json_sample ascii_step () initial_hook
        (Responded (error_response 404 ''{"detail":"Agent not found"}''))))\<close>
    using a by blast
  have a2: \<open>error (fst (executeStream json_sample ascii_step () initial_hook
        (Responded (error_response 404 ''{"detail":"Agent not found"}''))))
      = JStr ''Agent not found''\<close>
    using a resp p1 by auto
  have a3: \<open>snd (executeStream json_sample ascii_step () initial_hook
        (Responded (error_response 404 ''{"detail":"Agent not found"}''))) = JNull\<close>
    using a resp by auto
  have b1: "error (fst (executeStream json_sample ascii_step () initial_hook
        (Responded (error_response 502 ''<html>Bad Gateway</html>''))))
     = JStr ''Request failed: 502''"
    using b resp p2 n by auto
  have c1: "error (fst (executeStream json_sample ascii_step () initial_hook
        (Responded (error_response 500 ''{}'')))) = JStr ''Request failed: 500''"
    using c resp p3 n by auto
  show ?thesis using a1 a2 a3 b1 c1 by blast
qed

section \<open>The result of a delete\<close>

lemma executeStream_final_error:
  assumes "ok r" and "body r = Some (chunks, None)"
    and "received parse (fst (decode dstep ds0 (concat chunks))) = pre @ [t]"
    and "event_type t = JStr ''error''"
  shows "error (fst (executeStream parse dstep ds0 h (Responded r))) = js_prop t ''message''"
proof -
  obtain fr0 h0 where st:
    "foldl (\<lambda>s ev. handle_event ev s) (JNull, invoke h) pre = (fr0, h0)"
    by (cases "foldl (\<lambda>s ev. handle_event ev s) (JNull, invoke h) pre")
  show ?thesis
    using assms(3,4) st handle_event_error[of t fr0 h0]
    by (simp add: executeStream_ok_body[OF assms(1,2)] finally_block_def)
qed

text \<open>
  What \<^verbatim>\<open>executeDelete\<close> returns is fixed by the render that created the callback; the
  answer to the request has no part in it.
\<close>

lemma executeDelete_result:
  "snd (executeDelete parse dstep ds0 rendered h fr)
     = (error rendered = JNull \<and> \<not> isLoading rendered)"
  by (simp add: executeDelete_def split: prod.splits)

lemma executeDelete_state:
  "fst (executeDelete parse dstep ds0 rendered h fr) = fst (executeStream parse dstep ds0 h fr)"
  by (simp add: executeDelete_def split: prod.splits)

text \<open>
  C9. \<^verbatim>\<open>executeDelete\<close> returns true exactly when the delete stream it awaited produced
  no error. The code on a freshly mounted hook, at a delete stream that carries an
  \<^verbatim>\<open>error\<close> event: the error state is set to the event's message, and the call returns
  true.
\<close>

theorem C9_executeDelete_true_after_error_event:
  "error (fst (executeDelete json_sample ascii_step () initial_hook initial_hook
        (Responded (ok_response failing_chunks)))) = JStr ''Backend failure''
   \<and> snd (executeDelete json_sample ascii_step () initial_hook initial_hook
        (Responded (ok_response failing_chunks))) = True"
proof -
  have "error (fst (executeStream json_sample ascii_step () initial_hook
          (Responded (ok_response failing_chunks)))) = js_prop error_event ''message''"
    using executeStream_final_error[OF ok_response_simps, of json_sample ascii_step "()"
        failing_chunks "[log_event]" error_event initial_hook]
    by (simp add: received_failing sample_events)
  moreover have "snd (executeDelete json_sample ascii_step () initial_hook initial_hook
        (Responded (ok_response failing_chunks)))"
    by (simp add: executeDelete_result initial_hook_def)
  ultimately show ?thesis
    by (simp add: executeDelete_state sample_events)
qed

section \<open>Overlapping calls\<close>

text \<open>A call made while the ref holds a controller aborts that controller.\<close>

lemma invoke_aborts_ref:
  "abortControllerRef h = Some c \<Longrightarrow> c < length (signals h) \<Longrightarrow> signals (invoke h) ! c"
  by (simp add: invoke_def abort_def nth_append)

text \<open>A call that ends in an \<^verbatim>\<open>AbortError\<close> returns null and leaves the error state alone.\<close>

lemma settle_aborted:
  "settle parse dstep ds0 (Rejected (ErrorObj ''AbortError'' m)) h = (finally_block h, JNull)"
  by (simp add: settle_def try_block_def catch_block_def)

text \<open>
  C10. A call made while an earlier request is in flight aborts that request. The code at
  three calls: the second aborts the first; the first then ends in its \<^verbatim>\<open>AbortError\<close>, and
  its \<^verbatim>\<open>finally\<close> block clears the ref that by now holds the second call's controller;
  the third call finds the ref empty. Afterwards the calls of controllers 1 and 2 are both
  in flight and neither is aborted.
\<close>

theorem C10_second_call_survives_third:
  "snd (run_calls json_sample ascii_step ()
          [Invoke, Invoke, Settle 0 (Rejected abort_error), Invoke]) = [1, 2]
   \<and> signals (fst (run_calls json_sample ascii_step ()
          [Invoke, Invoke, Settle 0 (Rejected abort_error), Invoke])) = [True, False, False]
   \<and> signals (fst (run_calls json_sample ascii_step () [Invoke, Invoke])) = [True, False]"
  by (simp add: run_calls_def invoke_def abort_def initial_hook_def abort_error_def
      settle_aborted finally_block_def)


section \<open>Start and stop\<close>

text \<open>
  C4. On the dashboard's agent card and on the agent detail page, the start action is
  offered exactly when the agent's \<^verbatim>\<open>vm_status\<close> is \<^verbatim>\<open>stopped\<close> and the stop action exactly
  when it is \<^verbatim>\<open>running\<close>; for an agent in any other status neither is offered.
\<close>

theorem C4_start_stop_gated_by_status:
  "(onStart \<in> set (AgentCard agent) \<longleftrightarrow> vm_status agent = Stopped)
   \<and> (onStop \<in> set (AgentCard agent) \<longleftrightarrow> vm_status agent = Running)
   \<and> (onStart \<in> set (AgentDetail loading (Some agent))
        \<longleftrightarrow> \<not> loading \<and> vm_status agent = Stopped)
   \<and> (onStop \<in> set (AgentDetail loading (Some agent))
        \<longleftrightarrow> \<not> loading \<and> vm_status agent = Running)
   \<and> onStart \<notin> set (AgentDetail loading None) \<and> onStop \<notin> set (AgentDetail loading None)
   \<and> (\<forall>card \<in> set (Dashboard agents). \<exists>a \<in> set agents.
         card = (agent_id a, AgentCard a)
         \<and> (onStart \<in> set (snd card) \<longleftrightarrow> vm_status a = Stopped)
         \<and> (onStop \<in> set (snd card) \<longleftrightarrow> vm_status a = Running))"
proof -
  have card: "(onStart \<in> set (AgentCard a) \<longleftrightarrow> vm_status a = Stopped)
        \<and> (onStop \<in> set (AgentCard a) \<longleftrightarrow> vm_status a = Running)" for a
    by (simp add: AgentCard_def)
  have detail: "(onStart \<in> set (AgentDetail loading (Some agent))
          \<longleftrightarrow> \<not> loading \<and> vm_status agent = Stopped)
        \<and> (onStop \<in> set (AgentDetail loading (Some agent))
          \<longleftrightarrow> \<not> loading \<and> vm_status agent = Running)
        \<and> onStart \<notin> set (AgentDetail loading None) \<and> onStop \<notin> set (AgentDetail loading None)"
    by (simp add: AgentDetail_def)
  have dash: "\<forall>card \<in> set (Dashboard agents). \<exists>a \<in> set agents.
         card = (agent_id a, AgentCard a)
         \<and> (onStart \<in> set (snd card) \<longleftrightarrow> vm_status a = Stopped)
         \<and> (onStop \<in> set (snd card) \<longleftrightarrow> vm_status a = Running)"
    using card by (auto simp: Dashboard_def)
  show ?thesis using card[of agent] detail dash by blast
qed

theorem C4_start_stop_gated_by_status_witness:
  "onStart \<in> set (AgentCard \<lparr>agent_id = ''a1'', agent_name = ''one'',
       platform_type = ''openclaw'', current_task = None, vm_status = Stopped\<rparr>)
   \<and> onStop \<notin> set (AgentCard \<lparr>agent_id = ''a1'', agent_name = ''one'',
       platform_type = ''openclaw'', current_task = None, vm_status = Stopped\<rparr>)
   \<and> onStop \<in> set (AgentDetail False (Some \<lparr>agent_id = ''a2'', agent_name = ''two'',
       platform_type = ''openclaw'', current_task = None, vm_status = Running\<rparr>))
   \<and> onStart \<notin> set (AgentDetail False (Some \<lparr>agent_id = ''a3'', agent_name = ''three'',
       platform_type = ''openclaw'', current_task = None, vm_status = Error\<rparr>))
   \<and> snd (hd (Dashboard [\<lparr>agent_id = ''a1'', agent_name = ''one'',
       platform_type = ''openclaw'', current_task = None, vm_status = Stopped\<rparr>]))
       = [onStart, onDelete]"
proof -
  let ?a1 = "\<lparr>agent_id = ''a1'', agent_name = ''one'',
       platform_type = ''openclaw'', current_task = None, vm_status = Stopped\<rparr>"
  let ?a2 = "\<lparr>agent_id = ''a2'', agent_name = ''two'',
       platform_type = ''openclaw'', current_task = None, vm_status = Running\<rparr>"
  let ?a3 = "\<lparr>agent_id = ''a3'', agent_name = ''three'',
       platform_type = ''openclaw'', current_task = None, vm_status = Error\<rparr>"
  note c1 = C4_start_stop_gated_by_status[of ?a1 False "[?a1]"]
  note c2 = C4_start_stop_gated_by_status[of ?a2 False "[?a2]"]
  note c3 = C4_start_stop_gated_by_status[of ?a3 False "[?a3]"]
  have d: "snd (hd (Dashboard [?a1])) = [onStart, onDelete]"
    by (simp add: Dashboard_def AgentCard_def)
  show ?thesis using c1 c2 c3 d by simp
qed

section \<open>The status enumeration\<close>






section \<open>The audit log is append-only\<close>

lemma rewrite_audit_update: "rewrite schema_rules (UPDATE ''audit_logs'' p f) = []"
  by (simp add: rewrite_def schema_rules_def)

lemma rewrite_audit_delete: "rewrite schema_rules (DELETE_FROM ''audit_logs'' p) = []"
  by (simp add: rewrite_def schema_rules_def)

lemma execute_keeps_audit_prefix:
  "prefix (db ''audit_logs'') (execute schema_rules db cmd ''audit_logs'')"
proof (cases cmd)
  case (INSERT_INTO t r)
  then show ?thesis by (simp add: execute_def rewrite_def schema_rules_def)
next
  case (UPDATE t p f)
  then show ?thesis
    by (cases "t = ''audit_logs''") (simp_all add: execute_def rewrite_def schema_rules_def)
next
  case (DELETE_FROM t p)
  then show ?thesis
    by (cases "t = ''audit_logs''") (simp_all add: execute_def rewrite_def schema_rules_def)
qed

lemma run_keeps_audit_prefix:
  "prefix (db ''audit_logs'') (foldl (execute schema_rules) db cmds ''audit_logs'')"
proof (induction cmds arbitrary: db)
  case Nil
  then show ?case by simp
next
  case (Cons cmd cmds)
  have "prefix (db ''audit_logs'') (execute schema_rules db cmd ''audit_logs'')"
    by (rule execute_keeps_audit_prefix)
  also have "prefix (execute schema_rules db cmd ''audit_logs'')
               (foldl (execute schema_rules) (execute schema_rules db cmd) cmds ''audit_logs'')"
    by (rule Cons.IH)
  finally show ?case by simp
qed

text \<open>
  C3. No operation updates or deletes an existing audit log entry. Every request of the
  API client that is addressed to the audit log is a read (a GET): the client's
  \<^verbatim>\<open>logs\<close> object has \<^verbatim>\<open>list\<close> and \<^verbatim>\<open>export\<close> only. Under the rules of the schema, an
  UPDATE or a DELETE on \<^verbatim>\<open>audit_logs\<close> is discarded and leaves the database as it was,
  and after any sequence of commands the entries that were in the table are still there,
  unchanged and in place.
\<close>

theorem C3_audit_log_append_only:
  "(\<forall>call. to_audit_log (request_of call) \<longrightarrow> http_verb (request_of call) = GET)
   \<and> to_audit_log (request_of (logs_list actionType targetType skip limit))
   \<and> to_audit_log (request_of (logs_export format))
   \<and> execute schema_rules db (UPDATE ''audit_logs'' p f) = db
   \<and> execute schema_rules db (DELETE_FROM ''audit_logs'' p) = db
   \<and> prefix (db ''audit_logs'') (foldl (execute schema_rules) db cmds ''audit_logs'')"
proof -
  have reads: "http_verb (request_of call) = GET" if "to_audit_log (request_of call)" for call
    using that by (cases call) (simp_all add: to_audit_log_def API_BASE_def)
  have logs: "to_audit_log (request_of (logs_list actionType targetType skip limit))"
    "to_audit_log (request_of (logs_export format))"
    by (simp_all add: to_audit_log_def API_BASE_def)
  have upd: "execute schema_rules db (UPDATE ''audit_logs'' p f) = db"
    by (simp add: execute_def rewrite_audit_update)
  have del: "execute schema_rules db (DELETE_FROM ''audit_logs'' p) = db"
    by (simp add: execute_def rewrite_audit_delete)
  show ?thesis using reads logs upd del run_keeps_audit_prefix[of db cmds] by blast
qed

theorem C3_audit_log_append_only_witness:
  "http_verb (request_of (logs_export ''csv'')) = GET
   \<and> foldl (execute schema_rules) (\<lambda>t. if t = ''audit_logs'' then [''entry 1''] else [])
        [UPDATE ''audit_logs'' (\<lambda>r. True) (\<lambda>r. ''forged''),
         DELETE_FROM ''audit_logs'' (\<lambda>r. True),
         INSERT_INTO ''audit_logs'' ''entry 2''] ''audit_logs''
     = [''entry 1'', ''entry 2'']
   \<and> prefix [''entry 1'']
        (foldl (execute schema_rules) (\<lambda>t. if t = ''audit_logs'' then [''entry 1''] else [])
          [UPDATE ''audit_logs'' (\<lambda>r. True) (\<lambda>r. ''forged''),
           DELETE_FROM ''audit_logs'' (\<lambda>r. True),
           INSERT_INTO ''audit_logs'' ''entry 2''] ''audit_logs'')"
proof -
  let ?db = "\<lambda>t. if t = ''audit_logs'' then [''entry 1''] else []"
  let ?cmds = "[UPDATE ''audit_logs'' (\<lambda>r. True) (\<lambda>r. ''forged''),
         DELETE_FROM ''audit_logs'' (\<lambda>r. True),
         INSERT_INTO ''audit_logs'' ''entry 2'']"
  note c = C3_audit_log_append_only[of "None" "None" 0 50 "''csv''" ?db "\<lambda>r. True"
      "\<lambda>r. ''forged''" ?cmds]
  have get: "http_verb (request_of (logs_export ''csv'')) = GET"
    using c by blast
  have upd: "execute schema_rules ?db (UPDATE ''audit_logs'' (\<lambda>r. True) (\<lambda>r. ''forged'')) = ?db"
    and del: "execute schema_rules ?db (DELETE_FROM ''audit_logs'' (\<lambda>r. True)) = ?db"
    and pre: "prefix (?db ''audit_logs'') (foldl (execute schema_rules) ?db ?cmds ''audit_logs'')"
    using c by blast+
  have ins: "execute schema_rules ?db (INSERT_INTO ''audit_logs'' ''entry 2'') ''audit_logs''
      = [''entry 1'', ''entry 2'']"
    by (simp add: execute_def rewrite_def schema_rules_def)
  have run: "foldl (execute schema_rules) ?db ?cmds ''audit_logs'' = [''entry 1'', ''entry 2'']"
    using upd del ins by simp
  show ?thesis using get run pre by simp
qed

section \<open>Credential plaintext\<close>

lemma map_of_None_same_keys:
  "map fst b = map fst b' \<Longrightarrow> (map_of b k = None \<longleftrightarrow> map_of b' k = None)"
  by (metis map_of_eq_None_iff set_map)

lemma inject_each_events:
  "map fst b = map fst b' \<Longrightarrow> snd (inject_each now b rows) = snd (inject_each now b' rows)"
proof (induction rows)
  case Nil
  then show ?case by simp
next
  case (Cons r rows)
  show ?case
  proof (cases "map_of b (row_secret_ref r)")
    case None
    then have "map_of b' (row_secret_ref r) = None"
      using map_of_None_same_keys[OF Cons.prems] by simp
    with None show ?thesis by simp
  next
    case (Some v)
    then obtain v' where "map_of b' (row_secret_ref r) = Some v'"
      using map_of_None_same_keys[OF Cons.prems, of "row_secret_ref r"] by auto
    with Some Cons show ?thesis by (auto split: prod.splits)
  qed
qed

text \<open>
  C7. Credential plaintext never appears in a record or event delivered to the caller.
  The \<^verbatim>\<open>Credential\<close> record has no field for the secret; the plaintext enters with
  \<^verbatim>\<open>CreateCredentialRequest\<close> only. Stated as non-interference on the credential service:
  two runs that differ in nothing but the secret values (the value of the request, the
  plaintexts held by the secret backend) return the same credential, list and get the same
  credentials, append the same audit entries and emit the same progress events.
\<close>

theorem C7_plaintext_not_delivered:
  assumes "request_name d = request_name d'" and "request_type d = request_type d'"
    and "request_description d = request_description d'"
    and "same_but_plaintext s s'"
  shows "fst (create_credential owner now ip d s) = fst (create_credential owner now ip d' s')
       \<and> same_but_plaintext (snd (create_credential owner now ip d s))
            (snd (create_credential owner now ip d' s'))
       \<and> audit_ledger (snd (create_credential owner now ip d s))
            = audit_ledger (snd (create_credential owner now ip d' s'))
       \<and> list_credentials owner s = list_credentials owner s'
       \<and> get_credential owner cid s = get_credential owner cid s'
       \<and> snd (inject_credentials later s granted) = snd (inject_credentials later s' granted)"
proof -
  have keys: "map fst (secret_backend s) = map fst (secret_backend s')"
    and rows: "credentials s = credentials s'" and logs: "audit_ledger s = audit_ledger s'"
    using assms(4) by (simp_all add: same_but_plaintext_def)
  have len: "length (secret_backend s) = length (secret_backend s')"
    using keys by (metis length_map)
  have create: "fst (create_credential owner now ip d s)
                  = fst (create_credential owner now ip d' s')"
    using assms(1-3) rows
    by (simp add: create_credential_def store_secret_def Let_def)
  have after: "same_but_plaintext (snd (create_credential owner now ip d s))
                 (snd (create_credential owner now ip d' s'))"
    using assms(1-3) keys rows logs len
    by (simp add: create_credential_def store_secret_def Let_def same_but_plaintext_def)
  have lst: "list_credentials owner s = list_credentials owner s'"
    using rows by (simp add: list_credentials_def)
  have evs: "snd (inject_credentials later s granted)
               = snd (inject_credentials later s' granted)"
    using inject_each_events[OF keys] rows
    by (simp add: inject_credentials_def split: prod.splits) (metis snd_conv)
  show ?thesis
    using create after lst evs by (simp add: get_credential_def same_but_plaintext_def)
qed

theorem C7_plaintext_not_delivered_witness:
  "fst (create_credential ''u1'' ''t0'' None (sample_request ''sk-first'') empty_server)
     = fst (create_credential ''u1'' ''t0'' None (sample_request ''sk-second'') empty_server)
   \<and> audit_ledger (snd (create_credential ''u1'' ''t0'' None
         (sample_request ''sk-first'') empty_server))
     = audit_ledger (snd (create_credential ''u1'' ''t0'' None
         (sample_request ''sk-second'') empty_server))
   \<and> snd (inject_credentials ''t1''
         (snd (create_credential ''u1'' ''t0'' None (sample_request ''sk-first'') empty_server))
         [''cred-0''])
     = snd (inject_credentials ''t1''
         (snd (create_credential ''u1'' ''t0'' None (sample_request ''sk-second'') empty_server))
         [''cred-0''])
   \<and> fst (inject_credentials ''t1''
         (snd (create_credential ''u1'' ''t0'' None (sample_request ''sk-first'') empty_server))
         [''cred-0''])
     = [(''credentials/anthropic'', ''sk-first'')]"
proof -
  let ?s1 = "snd (create_credential ''u1'' ''t0'' None (sample_request ''sk-first'') empty_server)"
  let ?s2 = "snd (create_credential ''u1'' ''t0'' None (sample_request ''sk-second'') empty_server)"
  have req: "request_name (sample_request ''sk-first'') = request_name (sample_request ''sk-second'')"
    "request_type (sample_request ''sk-first'') = request_type (sample_request ''sk-second'')"
    "request_description (sample_request ''sk-first'')
       = request_description (sample_request ''sk-second'')"
    by (simp_all add: sample_request_def)
  have same0: "same_but_plaintext empty_server empty_server"
    by (simp add: same_but_plaintext_def)
  note c = C7_plaintext_not_delivered[OF req same0, of "''u1''" "''t0''" None "''cred-0''"
      "''t1''" "[''cred-0'']"]
  then have same1: "same_but_plaintext ?s1 ?s2" by blast
  note e = C7_plaintext_not_delivered[OF req same1, of "''u1''" "''t0''" None "''cred-0''"
      "''t1''" "[''cred-0'']"]
  have n: "string_of_nat 0 = ''0''" by code_simp
  have files: "fst (inject_credentials ''t1'' ?s1 [''cred-0''])
      = [(''credentials/anthropic'', ''sk-first'')]"
    by (simp add: inject_credentials_def create_credential_def store_secret_def Let_def
        empty_server_def sample_request_def n split: prod.splits)
  show ?thesis using c e files by blast
qed


end
